theory Spec2Isabelle
  imports Complex_Main "HOL-Library.AList"
begin

section \<open>The voice-channel loudness monitor of \<^verbatim>\<open>index.js\<close>\<close>

text \<open>
  The program is a set of event handlers over three module-level variables
  (\<^verbatim>\<open>activeStreams\<close>, \<^verbatim>\<open>lastMuteTime\<close>, \<^verbatim>\<open>isMonitoring\<close>) and the table of voice
  connections that \<^verbatim>\<open>getVoiceConnection\<close> reads. Each handler is a function from the state
  (and what the event carries) to the new state and the list of calls it makes on its
  collaborators, in program order. Identifiers (users, channels, guilds) are strings, as in
  the source; a stream handle is a number naming one object returned by
  \<^verbatim>\<open>receiver.subscribe\<close>. Texts written to the console keep the literal part of the
  source's template up to the first interpolated value.
\<close>

type_synonym snowflake = string
type_synonym stream = nat

subsection \<open>Numbers\<close>

text \<open>
  A JavaScript number is a real or one of the three special values; doubles are idealised
  as reals, so rounding is not modelled. The operations below are the ones
  \<^verbatim>\<open>calculateVolume\<close> and the threshold test use: \<^verbatim>\<open>sum / data.length\<close> (both
  operands finite, the divisor never negative), \<^verbatim>\<open>avg + 1\<close>, \<^verbatim>\<open>Math.log10\<close>,
  \<^verbatim>\<open>20 * x\<close> and \<^verbatim>\<open>volume > DECIBEL_THRESHOLD\<close>.
\<close>

datatype number = NaN | PosInf | NegInf | Num real

definition js_div :: "real \<Rightarrow> real \<Rightarrow> number" where
  "js_div a b =
     (if b \<noteq> 0 then Num (a / b)
      else if a = 0 then NaN
      else if 0 < a then PosInf else NegInf)"

fun js_add :: "number \<Rightarrow> real \<Rightarrow> number" where
  "js_add NaN r = NaN"
| "js_add PosInf r = PosInf"
| "js_add NegInf r = NegInf"
| "js_add (Num x) r = Num (x + r)"

fun js_log10 :: "number \<Rightarrow> number" where
  "js_log10 NaN = NaN"
| "js_log10 PosInf = PosInf"
| "js_log10 NegInf = NaN"
| "js_log10 (Num x) = (if x < 0 then NaN else if x = 0 then NegInf else Num (log 10 x))"

fun js_times :: "real \<Rightarrow> number \<Rightarrow> number" where
  "js_times r NaN = NaN"
| "js_times r PosInf = (if r = 0 then NaN else if 0 < r then PosInf else NegInf)"
| "js_times r NegInf = (if r = 0 then NaN else if 0 < r then NegInf else PosInf)"
| "js_times r (Num x) = Num (r * x)"

fun js_gt :: "number \<Rightarrow> real \<Rightarrow> bool" where
  "js_gt NaN r = False"
| "js_gt PosInf r = True"
| "js_gt NegInf r = False"
| "js_gt (Num x) r = (r < x)"

definition DECIBEL_THRESHOLD :: real where
  "DECIBEL_THRESHOLD = 429 / 10"

definition MUTE_COOLDOWN :: int where
  "MUTE_COOLDOWN = 5000"

subsection \<open>\<^verbatim>\<open>calculateVolume\<close>\<close>

text \<open>
  The \<^verbatim>\<open>for\<close> loop adds \<^verbatim>\<open>Math.abs(data[i])\<close> to \<^verbatim>\<open>sum\<close> (here \<open>sm\<close>), starting from
  0. \<open>data\<close> is the list of the values that \<^verbatim>\<open>data[i]\<close> reads, which are integers.
\<close>

fun sum_abs :: "int list \<Rightarrow> int \<Rightarrow> int" where
  "sum_abs [] sm = sm"
| "sum_abs (x # xs) sm = sum_abs xs (sm + \<bar>x\<bar>)"

definition calculateVolume :: "int list \<Rightarrow> number" where
  "calculateVolume data =
     (let sm = sum_abs data 0;
          avg = js_div (real_of_int sm) (real (length data))
      in js_times 20 (js_log10 (js_add avg 1)))"

text \<open>
  The only call passes the chunk of the decoder (\<^verbatim>\<open>Prism.opus.Decoder\<close>, one channel), a
  \<^verbatim>\<open>Buffer\<close> of 16-bit signed little-endian PCM: two bytes per sample, low byte first,
  negative samples in two's complement. Indexing a \<^verbatim>\<open>Buffer\<close> reads one unsigned byte, so
  for a frame of samples \<open>xs\<close> the values \<^verbatim>\<open>data[i]\<close> are \<open>pcm_bytes xs\<close>.
\<close>

fun pcm_bytes :: "int list \<Rightarrow> int list" where
  "pcm_bytes [] = []"
| "pcm_bytes (x # xs) = (x mod 256) # ((x div 256) mod 256) # pcm_bytes xs"

subsection \<open>The \<^verbatim>\<open>Map\<close> of active streams\<close>

text \<open>
  A JavaScript \<^verbatim>\<open>Map\<close> keeps its entries in insertion order; \<^verbatim>\<open>set\<close> on a key that is
  present replaces the value in place and on a new key appends the entry.
\<close>

type_synonym registry = "(snowflake \<times> stream) list"

definition map_has :: "registry \<Rightarrow> snowflake \<Rightarrow> bool" where
  "map_has m k = (map_of m k \<noteq> None)"

definition map_get :: "registry \<Rightarrow> snowflake \<Rightarrow> stream option" where
  "map_get m k = map_of m k"

definition map_set :: "snowflake \<Rightarrow> stream \<Rightarrow> registry \<Rightarrow> registry" where
  "map_set k v m = AList.update k v m"

definition map_delete :: "snowflake \<Rightarrow> registry \<Rightarrow> registry" where
  "map_delete k m = AList.delete k m"

subsection \<open>State and calls\<close>

record state =
  activeStreams :: registry
  lastMuteTime :: int
  isMonitoring :: bool
  connections :: "snowflake \<rightharpoonup> snowflake"
  volumeSampleCount :: "stream \<Rightarrow> nat"

text \<open>
  \<open>connections\<close> is the table behind \<^verbatim>\<open>getVoiceConnection\<close>: the channel of the
  connection held for a guild. \<^verbatim>\<open>joinVoiceChannel\<close> enters a connection and
  \<^verbatim>\<open>connection.destroy()\<close> removes it. \<open>volumeSampleCount\<close> holds the counter that each
  call of \<^verbatim>\<open>processAudio\<close> creates for its stream.
\<close>

definition initial_state :: state where
  "initial_state =
     \<lparr>activeStreams = [], lastMuteTime = 0, isMonitoring = False,
      connections = Map.empty, volumeSampleCount = (\<lambda>_. 0)\<rparr>"

text \<open>
  What a handler does besides changing the state. The assignment to \<^verbatim>\<open>lastMuteTime\<close> is
  listed too, so that its place relative to the \<^verbatim>\<open>setMute\<close> call can be read off.
\<close>

datatype action =
    ConsoleLog string
  | ConsoleError string
  | Subscribe snowflake stream
  | Destroy stream
  | Assign_lastMuteTime int
  | SetMute snowflake bool string
  | JoinVoiceChannel snowflake snowflake
  | ConnectionDestroy snowflake
  | Reply string
  | StatusReply bool "snowflake option" "snowflake option" nat
  | ClientDestroy
  | ProcessExit

definition and_then ::
  "state \<times> action list \<Rightarrow> (state \<Rightarrow> state \<times> action list) \<Rightarrow> state \<times> action list" where
  "and_then r f = (case r of (s, as) \<Rightarrow> (case f s of (s', bs) \<Rightarrow> (s', as @ bs)))"

subsection \<open>\<^verbatim>\<open>stopAllMonitoring\<close>\<close>

text \<open>
  Every value in the registry is a stream object, so the test before
  \<^verbatim>\<open>stream.destroy()\<close> holds for each entry.
\<close>

definition stopAllMonitoring :: "state \<Rightarrow> state \<times> action list" where
  "stopAllMonitoring s =
     (s\<lparr>isMonitoring := False, activeStreams := []\<rparr>,
      ConsoleLog ''[MONITOR] Stopping all audio monitoring''
        # map (\<lambda>(userId, stream). Destroy stream) (activeStreams s))"

subsection \<open>\<^verbatim>\<open>processAudio\<close> and the handlers it installs\<close>

text \<open>
  \<open>h\<close> is the stream that \<^verbatim>\<open>receiver.subscribe(user.id, ...)\<close> returns; \<open>Subscribe\<close>
  stands for the subscription and the decoder piped behind it.
\<close>

definition processAudio :: "state \<Rightarrow> snowflake \<Rightarrow> stream \<Rightarrow> state \<times> action list" where
  "processAudio s user h =
     (if \<not> isMonitoring s then
        (s, [ConsoleLog ''[MONITOR] Monitoring is disabled, not processing audio''])
      else if map_has (activeStreams s) user then
        (s, [ConsoleLog ''[MONITOR] Starting to process audio for specific user: '',
             ConsoleLog ''[MONITOR] Already monitoring user ''])
      else
        (s\<lparr>activeStreams := map_set user h (activeStreams s),
           volumeSampleCount := (volumeSampleCount s)(h := 0)\<rparr>,
         [ConsoleLog ''[MONITOR] Starting to process audio for specific user: '',
          Subscribe user h]))"

text \<open>
  The \<^verbatim>\<open>'data'\<close> handler of the decoder, for the session of \<open>user\<close> on stream \<open>h\<close>.
  \<open>chunk\<close> is \<open>None\<close> for a missing chunk; \<open>serverMute\<close> is what
  \<^verbatim>\<open>user.voice.serverMute\<close> reads and \<open>now\<close> what \<^verbatim>\<open>Date.now()\<close> returns.
\<close>

definition pcm_data ::
  "state \<Rightarrow> snowflake \<Rightarrow> stream \<Rightarrow> int list option \<Rightarrow> bool \<Rightarrow> int \<Rightarrow> state \<times> action list" where
  "pcm_data s user h chunk serverMute now =
     (if \<not> isMonitoring s then (s, [Destroy h])
      else case chunk of
        None \<Rightarrow> (s, [])
      | Some data \<Rightarrow>
          if length data = 0 then (s, [])
          else
            let volume = calculateVolume data;
                n = volumeSampleCount s h + 1;
                s1 = s\<lparr>volumeSampleCount := (volumeSampleCount s)(h := n)\<rparr>;
                logged = (if n mod 10 = 0 then [ConsoleLog ''[VOLUME] ''] else [])
            in if serverMute then (s1, logged)
               else if now - lastMuteTime s1 < MUTE_COOLDOWN then (s1, logged)
               else if js_gt volume DECIBEL_THRESHOLD then
                 (s1\<lparr>lastMuteTime := now\<rparr>,
                  logged @ [ConsoleLog ''[ALERT] '', Assign_lastMuteTime now,
                            SetMute user True ''Noise level too high!''])
               else (s1, logged))"

text \<open>The \<^verbatim>\<open>.catch\<close> callback of the \<^verbatim>\<open>setMute\<close> promise.\<close>

definition setMute_catch :: "state \<Rightarrow> state \<times> action list" where
  "setMute_catch s = (s, [ConsoleError ''[ERROR] Failed to mute user:''])"

text \<open>The \<^verbatim>\<open>'error'\<close> handler of the decoder and the \<^verbatim>\<open>'end'\<close> handler of the stream.\<close>

definition pcm_error :: "state \<Rightarrow> snowflake \<Rightarrow> state \<times> action list" where
  "pcm_error s user =
     ((if map_has (activeStreams s) user
       then s\<lparr>activeStreams := map_delete user (activeStreams s)\<rparr> else s),
      [ConsoleError ''[ERROR] Error in audio processing function:''])"

definition audio_end :: "state \<Rightarrow> snowflake \<Rightarrow> state \<times> action list" where
  "audio_end s user =
     ((if map_has (activeStreams s) user
       then s\<lparr>activeStreams := map_delete user (activeStreams s)\<rparr> else s),
      [ConsoleLog ''[MONITOR] Audio stream ended for user: ''])"

subsection \<open>\<^verbatim>\<open>joinAndMonitor\<close> and the listeners it installs\<close>

definition getVoiceConnection :: "state \<Rightarrow> snowflake \<Rightarrow> snowflake option" where
  "getVoiceConnection s guild = connections s guild"

text \<open>
  \<open>join_throws\<close> says whether \<^verbatim>\<open>joinVoiceChannel\<close> throws, which the \<^verbatim>\<open>catch\<close> block
  turns into the result \<^verbatim>\<open>null\<close>. The result is the state, the calls and the connection
  returned (its channel), \<open>None\<close> for \<^verbatim>\<open>null\<close>.
\<close>

definition joinAndMonitor ::
  "state \<Rightarrow> snowflake \<Rightarrow> snowflake \<Rightarrow> bool \<Rightarrow> (state \<times> action list) \<times> snowflake option" where
  "joinAndMonitor s channel guild join_throws =
     (let existingConnection = getVoiceConnection s guild in
      if existingConnection = Some channel then
        ((s\<lparr>isMonitoring := True\<rparr>,
          [ConsoleLog ''[BOT] Already in voice channel '']), Some channel)
      else
        let r1 = (case existingConnection of
                    None \<Rightarrow> (s, [])
                  | Some c \<Rightarrow> (s\<lparr>connections := (connections s)(guild := None)\<rparr>,
                               [ConnectionDestroy guild]))
        in if join_throws then
             (and_then r1 (\<lambda>s1. (s1, [ConsoleError ''[ERROR] Error joining voice channel:''])),
              None)
           else
             (and_then r1 (\<lambda>s1.
                (s1\<lparr>connections := (connections s1)(guild \<mapsto> channel),
                    isMonitoring := True\<rparr>,
                 [JoinVoiceChannel channel guild,
                  ConsoleLog ''[BOT] Automatically joined voice channel ''])),
              Some channel))"

text \<open>The \<^verbatim>\<open>'stateChange'\<close> listener of a connection.\<close>

definition connection_stateChange :: "state \<Rightarrow> string \<Rightarrow> state \<times> action list" where
  "connection_stateChange s newStatus =
     and_then (s, [ConsoleLog ''[CONNECTION] Connection state changed from ''])
       (\<lambda>s. if newStatus = ''disconnected'' then
               and_then (stopAllMonitoring s)
                 (\<lambda>s. (s, [ConsoleLog ''[CONNECTION] Bot was disconnected from voice channel'']))
             else (s, []))"

text \<open>
  The \<^verbatim>\<open>'start'\<close> listener of \<^verbatim>\<open>receiver.speaking\<close>. \<open>auth\<close> is
  \<^verbatim>\<open>AUTHORIZED_USER_ID\<close>, \<open>cached\<close> says whether \<^verbatim>\<open>guild.members.cache.get(userId)\<close>
  finds the member, and \<open>h\<close> is the stream a subscription would return.
\<close>

definition speaking_start ::
  "snowflake \<Rightarrow> state \<Rightarrow> snowflake \<Rightarrow> bool \<Rightarrow> stream \<Rightarrow> state \<times> action list" where
  "speaking_start auth s userId cached h =
     (if userId = auth \<and> isMonitoring s then
        and_then (s, [ConsoleLog ''[EVENT] Specific user started speaking''])
          (\<lambda>s. if cached then processAudio s userId h else (s, []))
      else (s, []))"

subsection \<open>The \<^verbatim>\<open>voiceStateUpdate\<close> handler\<close>

record voice_update =
  old_member :: snowflake
  new_member :: snowflake
  old_channel :: "snowflake option"
  new_channel :: "snowflake option"
  vs_guild :: snowflake
  vs_join_throws :: bool

text \<open>The clean-up of the subject's stream that cases 2 and 3 share.\<close>

definition cleanup_stream :: "snowflake \<Rightarrow> state \<Rightarrow> state \<times> action list" where
  "cleanup_stream auth s =
     (if map_has (activeStreams s) auth then
        (s\<lparr>activeStreams := map_delete auth (activeStreams s)\<rparr>,
         (case map_get (activeStreams s) auth of
            Some stream \<Rightarrow> [Destroy stream]
          | None \<Rightarrow> []))
      else (s, []))"

definition voiceStateUpdate :: "snowflake \<Rightarrow> state \<Rightarrow> voice_update \<Rightarrow> state \<times> action list" where
  "voiceStateUpdate auth s u =
     (if new_member u = auth \<or> old_member u = auth then
        and_then (s, [ConsoleLog ''[DEBUG] Voice state update for user '',
                      ConsoleLog ''[DEBUG] Old channel: '',
                      ConsoleLog ''[DEBUG] New channel: ''])
          (\<lambda>s. case (old_channel u, new_channel u) of
                  (None, Some c) \<Rightarrow>
                    and_then (s, [ConsoleLog ''[EVENT] Target user ''])
                      (\<lambda>s. fst (joinAndMonitor s c (vs_guild u) (vs_join_throws u)))
                | (Some c0, None) \<Rightarrow>
                    and_then (s, [ConsoleLog ''[EVENT] Target user ''])
                      (\<lambda>s. and_then (cleanup_stream auth s)
                         (\<lambda>s. case getVoiceConnection s (vs_guild u) of
                                 None \<Rightarrow> (s, [])
                               | Some conn \<Rightarrow>
                                   and_then
                                     (s, [ConsoleLog ''[BOT] Automatically leaving voice channel because target user left''])
                                     (\<lambda>s. and_then (stopAllMonitoring s)
                                        (\<lambda>s. (s\<lparr>connections := (connections s)(vs_guild u := None)\<rparr>,
                                               [ConnectionDestroy (vs_guild u)])))))
                | (Some c0, Some c) \<Rightarrow>
                    if c0 \<noteq> c then
                      and_then (s, [ConsoleLog ''[EVENT] Target user ''])
                        (\<lambda>s. and_then (cleanup_stream auth s)
                           (\<lambda>s. fst (joinAndMonitor s c (vs_guild u) (vs_join_throws u))))
                    else (s, [])
                | (None, None) \<Rightarrow> (s, []))
      else (s, []))"

subsection \<open>The \<^verbatim>\<open>messageCreate\<close> handler\<close>

text \<open>
  \<^verbatim>\<open>String.prototype.toLowerCase\<close> on the letters \<^verbatim>\<open>A\<close> to \<^verbatim>\<open>Z\<close> (codes 65 to 90);
  every other byte is left as it is. JavaScript lower-cases letters outside ASCII as well,
  but a text containing one never equals a command literal before or after that, so the
  six comparisons of the handler come out the same.
\<close>

definition lower_char :: "char \<Rightarrow> char" where
  "lower_char c =
     (let n = (of_char c :: nat) in if 65 \<le> n \<and> n \<le> 90 then char_of (n + 32) else c)"

definition toLowerCase :: "string \<Rightarrow> string" where
  "toLowerCase str = map lower_char str"

text \<open>
  What the handler reads from the message: \<open>member_channel\<close> is the channel of
  \<^verbatim>\<open>message.member.voice\<close> (\<open>None\<close> when the member or the channel is missing),
  \<open>target_serverMute\<close> the mute flag of the cached subject (\<open>None\<close> when the subject is not
  cached), \<open>target_channel\<close> the subject's channel, \<open>unmute_rejects\<close> whether the awaited
  \<^verbatim>\<open>setMute(false, ...)\<close> rejects.
\<close>

record message =
  author_bot :: bool
  content :: string
  member_channel :: "snowflake option"
  msg_guild :: snowflake
  target_serverMute :: "bool option"
  target_channel :: "snowflake option"
  msg_join_throws :: bool
  unmute_rejects :: bool

definition cmd_join :: "state \<Rightarrow> message \<Rightarrow> state \<times> action list" where
  "cmd_join s m =
     (if toLowerCase (content m) = ''!EP_join'' then
        and_then (s, [ConsoleLog ''[COMMAND] Received !EP_join command''])
          (\<lambda>s. case member_channel m of
                  Some c \<Rightarrow>
                    and_then (fst (joinAndMonitor s c (msg_guild m) (msg_join_throws m)))
                      (\<lambda>s. (s, [Reply ''Joined voice channel '']))
                | None \<Rightarrow>
                    (s, [Reply ''You need to be in a voice channel for me to join you!'']))
      else (s, []))"

definition cmd_leave :: "state \<Rightarrow> message \<Rightarrow> state \<times> action list" where
  "cmd_leave s m =
     (if toLowerCase (content m) = ''!EP_leave'' then
        and_then (s, [ConsoleLog ''[COMMAND] Received !EP_leave command''])
          (\<lambda>s. case getVoiceConnection s (msg_guild m) of
                  Some conn \<Rightarrow>
                    and_then (stopAllMonitoring s)
                      (\<lambda>s. (s\<lparr>connections := (connections s)(msg_guild m := None)\<rparr>,
                             [ConnectionDestroy (msg_guild m),
                              ConsoleLog ''[BOT] Left the voice channel!'',
                              Reply ''Left the voice channel!'']))
                | None \<Rightarrow>
                    (s, [Reply ''I am not connected to a voice channel right now!'']))
      else (s, []))"

definition cmd_unmute :: "snowflake \<Rightarrow> state \<Rightarrow> message \<Rightarrow> state \<times> action list" where
  "cmd_unmute auth s m =
     (if toLowerCase (content m) = ''!unmute'' then
        (s, ConsoleLog ''[COMMAND] Received !unmute command''
            # (if target_serverMute m = Some True then
                 SetMute auth False ''Manual unmute command''
                 # (if unmute_rejects m then
                      [ConsoleError ''[ERROR] Error unmuting user:'',
                       Reply ''Error unmuting user. Check console for details.'']
                    else [Reply ''Unmuted ''])
               else [Reply ''The user is not currently muted or not in a voice channel.'']))
      else (s, []))"

definition cmd_pausemonitor :: "state \<Rightarrow> message \<Rightarrow> state \<times> action list" where
  "cmd_pausemonitor s m =
     (if toLowerCase (content m) = ''!pausemonitor'' then
        (s\<lparr>isMonitoring := False\<rparr>,
         [ConsoleLog ''[COMMAND] Received !pausemonitor command'',
          Reply ''Audio monitoring paused!''])
      else (s, []))"

definition cmd_resumemonitor :: "state \<Rightarrow> message \<Rightarrow> state \<times> action list" where
  "cmd_resumemonitor s m =
     (if toLowerCase (content m) = ''!resumemonitor'' then
        (s\<lparr>isMonitoring := True\<rparr>,
         [ConsoleLog ''[COMMAND] Received !resumemonitor command'',
          Reply ''Audio monitoring resumed!''])
      else (s, []))"

text \<open>The status text is kept as the values it reports.\<close>

definition cmd_status :: "state \<Rightarrow> message \<Rightarrow> state \<times> action list" where
  "cmd_status s m =
     (if toLowerCase (content m) = ''!status'' then
        (s, [ConsoleLog ''[COMMAND] Received !status command'',
             StatusReply (isMonitoring s) (getVoiceConnection s (msg_guild m))
               (target_channel m) (length (activeStreams s))])
      else (s, []))"

definition messageCreate :: "snowflake \<Rightarrow> state \<Rightarrow> message \<Rightarrow> state \<times> action list" where
  "messageCreate auth s m =
     (if author_bot m then (s, [])
      else
        and_then (and_then (and_then (and_then (and_then
          (cmd_join s m)
          (\<lambda>s. cmd_leave s m))
          (\<lambda>s. cmd_unmute auth s m))
          (\<lambda>s. cmd_pausemonitor s m))
          (\<lambda>s. cmd_resumemonitor s m))
          (\<lambda>s. cmd_status s m))"

subsection \<open>Start-up and shutdown\<close>

text \<open>
  One entry per guild of \<^verbatim>\<open>client.guilds.cache\<close>: whether \<^verbatim>\<open>guild.members.fetch()\<close>
  throws, the subject's channel in this guild (\<open>None\<close> when the member or the channel is
  missing), and whether joining would throw.
\<close>

record guild_info =
  g_id :: snowflake
  g_fetch_throws :: bool
  g_member_channel :: "snowflake option"
  g_join_throws :: bool

fun ready_loop :: "state \<Rightarrow> guild_info list \<Rightarrow> state \<times> action list" where
  "ready_loop s [] = (s, [])"
| "ready_loop s (g # gs) =
     (if g_fetch_throws g then
        (s, [ConsoleError ''[ERROR] Error checking for target user on startup:''])
      else case g_member_channel g of
        Some c \<Rightarrow>
          and_then (s, [ConsoleLog ''[STARTUP] Target user found in voice channel ''])
            (\<lambda>s. fst (joinAndMonitor s c (g_id g) (g_join_throws g)))
      | None \<Rightarrow> ready_loop s gs)"

definition ready :: "state \<Rightarrow> guild_info list \<Rightarrow> state \<times> action list" where
  "ready s guilds =
     and_then (s, [ConsoleLog ''Bot is connected and ready!'',
                   ConsoleLog ''Monitoring specific user with ID: ''])
       (\<lambda>s. ready_loop s guilds)"

definition sigint :: "state \<Rightarrow> state \<times> action list" where
  "sigint s =
     and_then (s, [ConsoleLog ''[SHUTDOWN] Bot is shutting down, cleaning up connections...''])
       (\<lambda>s. and_then (stopAllMonitoring s) (\<lambda>s. (s, [ClientDestroy, ProcessExit])))"

subsection \<open>Events and runs\<close>

datatype event =
    Ready "guild_info list"
  | SpeakingStart snowflake bool stream
  | PcmData snowflake stream "int list option" bool int
  | PcmError snowflake
  | AudioEnd snowflake
  | SetMuteRejected
  | StateChange string
  | VoiceStateUpdate voice_update
  | MessageCreate message
  | Sigint

fun handle :: "snowflake \<Rightarrow> state \<Rightarrow> event \<Rightarrow> state \<times> action list" where
  "handle auth s (Ready guilds) = ready s guilds"
| "handle auth s (SpeakingStart userId cached h) = speaking_start auth s userId cached h"
| "handle auth s (PcmData user h chunk serverMute now) = pcm_data s user h chunk serverMute now"
| "handle auth s (PcmError user) = pcm_error s user"
| "handle auth s (AudioEnd user) = audio_end s user"
| "handle auth s SetMuteRejected = setMute_catch s"
| "handle auth s (StateChange newStatus) = connection_stateChange s newStatus"
| "handle auth s (VoiceStateUpdate u) = voiceStateUpdate auth s u"
| "handle auth s (MessageCreate m) = messageCreate auth s m"
| "handle auth s Sigint = sigint s"

text \<open>
  The runtime delivers one event at a time and each handler runs to completion; where a
  handler awaits a promise, it does not read or write the shared variables afterwards, so
  it is taken as one step. A run is the state after a list of events together with all
  calls made, in order.
\<close>

fun run :: "snowflake \<Rightarrow> state \<Rightarrow> event list \<Rightarrow> state \<times> action list" where
  "run auth s [] = (s, [])"
| "run auth s (e # es) = and_then (handle auth s e) (\<lambda>s'. run auth s' es)"

section \<open>Observations on runs\<close>

text \<open>
  The times assigned to \<^verbatim>\<open>lastMuteTime\<close> in a list of calls, the mute actions in it
  (\<^verbatim>\<open>setMute(true, ...)\<close>), and the number of times a stream is destroyed.
\<close>

fun mute_times :: "action list \<Rightarrow> int list" where
  "mute_times [] = []"
| "mute_times (Assign_lastMuteTime t # as) = t # mute_times as"
| "mute_times (a # as) = mute_times as"

fun is_mute :: "action \<Rightarrow> bool" where
  "is_mute (SetMute user flag reason) = flag"
| "is_mute a = False"

fun is_join :: "action \<Rightarrow> bool" where
  "is_join (JoinVoiceChannel channel guild) = True"
| "is_join a = False"

definition releases :: "stream \<Rightarrow> action list \<Rightarrow> nat" where
  "releases h as = length (filter (\<lambda>a. a = Destroy h) as)"

text \<open>
  \<open>spaced t ts\<close>: each time in \<open>ts\<close> is at least one cooldown after the one before it,
  the first one after \<open>t\<close>. \<open>in_cooldown t e\<close>: \<open>e\<close> is a decoded frame whose clock reading
  is less than one cooldown after \<open>t\<close>.
\<close>

fun spaced :: "int \<Rightarrow> int list \<Rightarrow> bool" where
  "spaced t [] = True"
| "spaced t (x # xs) = (MUTE_COOLDOWN \<le> x - t \<and> spaced x xs)"

fun in_cooldown :: "int \<Rightarrow> event \<Rightarrow> bool" where
  "in_cooldown t (PcmData user h chunk serverMute now) = (now - t < MUTE_COOLDOWN)"
| "in_cooldown t e = False"

text \<open>The mean of the absolute sample values, as the specification writes it.\<close>

definition mean_abs :: "int list \<Rightarrow> real" where
  "mean_abs data = real_of_int (sum_list (map abs data)) / real (length data)"

subsection \<open>Sample inputs\<close>

text \<open>
  One subject in one guild: the bot starts while the subject sits in channel \<open>''C1''\<close>, the
  subject starts speaking and the subscription returns stream 7.
\<close>

definition subject :: snowflake where
  "subject = ''1001''"

definition startup :: event where
  "startup = Ready [\<lparr>g_id = ''G1'', g_fetch_throws = False,
                     g_member_channel = Some ''C1'', g_join_throws = False\<rparr>]"

definition speaking :: event where
  "speaking = SpeakingStart subject True 7"

definition loud_frame :: "int \<Rightarrow> event" where
  "loud_frame t = PcmData subject 7 (Some [255, 255]) False t"

definition command :: "string \<Rightarrow> event" where
  "command text =
     MessageCreate \<lparr>author_bot = False, content = text, member_channel = Some ''C1'',
                    msg_guild = ''G1'', target_serverMute = Some False,
                    target_channel = Some ''C1'', msg_join_throws = False,
                    unmute_rejects = False\<rparr>"

definition presence :: "snowflake option \<Rightarrow> snowflake option \<Rightarrow> event" where
  "presence old new =
     VoiceStateUpdate \<lparr>old_member = subject, new_member = subject, old_channel = old,
                       new_channel = new, vs_guild = ''G1'', vs_join_throws = False\<rparr>"

definition joined :: state where
  "joined = fst (run subject initial_state [startup])"

definition listening :: state where
  "listening = fst (run subject initial_state [startup, speaking])"

definition paused :: state where
  "paused = fst (run subject listening [command ''!pausemonitor''])"

definition muted_at_20000 :: state where
  "muted_at_20000 = fst (run subject listening [loud_frame 20000])"

section \<open>Basic facts\<close>

lemma fst_and_then [simp]: "fst (and_then r f) = fst (f (fst r))"
  by (simp add: and_then_def split: prod.splits)

lemma snd_and_then [simp]: "snd (and_then r f) = snd r @ snd (f (fst r))"
  by (simp add: and_then_def split: prod.splits)

lemma mute_times_append [simp]: "mute_times (as @ bs) = mute_times as @ mute_times bs"
  by (induction as rule: mute_times.induct) simp_all

lemma mute_times_destroys [simp]: "mute_times (map (\<lambda>(userId, stream). Destroy stream) m) = []"
  by (induction m) auto

lemma is_mute_destroys [simp]: "filter is_mute (map (\<lambda>(userId, stream). Destroy stream) m) = []"
  by (induction m) auto


lemma quiet_stopAllMonitoring [simp]:
  "lastMuteTime (fst (stopAllMonitoring s)) = lastMuteTime s"
  "mute_times (snd (stopAllMonitoring s)) = []"
  "filter is_mute (snd (stopAllMonitoring s)) = []"
  by (simp_all add: stopAllMonitoring_def)

lemma quiet_processAudio [simp]:
  "lastMuteTime (fst (processAudio s user h)) = lastMuteTime s"
  "mute_times (snd (processAudio s user h)) = []"
  "filter is_mute (snd (processAudio s user h)) = []"
  by (simp_all add: processAudio_def)

lemma quiet_pcm_error [simp]:
  "lastMuteTime (fst (pcm_error s user)) = lastMuteTime s"
  "mute_times (snd (pcm_error s user)) = []"
  "filter is_mute (snd (pcm_error s user)) = []"
  by (simp_all add: pcm_error_def)

lemma quiet_audio_end [simp]:
  "lastMuteTime (fst (audio_end s user)) = lastMuteTime s"
  "mute_times (snd (audio_end s user)) = []"
  "filter is_mute (snd (audio_end s user)) = []"
  by (simp_all add: audio_end_def)

lemma quiet_setMute_catch [simp]:
  "lastMuteTime (fst (setMute_catch s)) = lastMuteTime s"
  "mute_times (snd (setMute_catch s)) = []"
  "filter is_mute (snd (setMute_catch s)) = []"
  by (simp_all add: setMute_catch_def)

lemma quiet_joinAndMonitor [simp]:
  "lastMuteTime (fst (fst (joinAndMonitor s channel guild jt))) = lastMuteTime s"
  "mute_times (snd (fst (joinAndMonitor s channel guild jt))) = []"
  "filter is_mute (snd (fst (joinAndMonitor s channel guild jt))) = []"
  by (simp_all add: joinAndMonitor_def Let_def split: option.splits)

lemma quiet_connection_stateChange [simp]:
  "lastMuteTime (fst (connection_stateChange s st)) = lastMuteTime s"
  "mute_times (snd (connection_stateChange s st)) = []"
  "filter is_mute (snd (connection_stateChange s st)) = []"
  by (simp_all add: connection_stateChange_def)

lemma quiet_speaking_start [simp]:
  "lastMuteTime (fst (speaking_start auth s userId cached h)) = lastMuteTime s"
  "mute_times (snd (speaking_start auth s userId cached h)) = []"
  "filter is_mute (snd (speaking_start auth s userId cached h)) = []"
  by (simp_all add: speaking_start_def)

lemma quiet_cleanup_stream [simp]:
  "lastMuteTime (fst (cleanup_stream auth s)) = lastMuteTime s"
  "mute_times (snd (cleanup_stream auth s)) = []"
  "filter is_mute (snd (cleanup_stream auth s)) = []"
  by (simp_all add: cleanup_stream_def split: option.splits)

lemma quiet_voiceStateUpdate [simp]:
  "lastMuteTime (fst (voiceStateUpdate auth s u)) = lastMuteTime s"
  "mute_times (snd (voiceStateUpdate auth s u)) = []"
  "filter is_mute (snd (voiceStateUpdate auth s u)) = []"
  by (simp_all add: voiceStateUpdate_def split: option.splits)

lemma quiet_cmd_join [simp]:
  "lastMuteTime (fst (cmd_join s m)) = lastMuteTime s"
  "mute_times (snd (cmd_join s m)) = []"
  "filter is_mute (snd (cmd_join s m)) = []"
  by (simp_all add: cmd_join_def split: option.splits)

lemma quiet_cmd_leave [simp]:
  "lastMuteTime (fst (cmd_leave s m)) = lastMuteTime s"
  "mute_times (snd (cmd_leave s m)) = []"
  "filter is_mute (snd (cmd_leave s m)) = []"
  by (simp_all add: cmd_leave_def split: option.splits)

lemma quiet_cmd_unmute [simp]:
  "lastMuteTime (fst (cmd_unmute auth s m)) = lastMuteTime s"
  "mute_times (snd (cmd_unmute auth s m)) = []"
  "filter is_mute (snd (cmd_unmute auth s m)) = []"
  by (simp_all add: cmd_unmute_def)

lemma quiet_cmd_pausemonitor [simp]:
  "lastMuteTime (fst (cmd_pausemonitor s m)) = lastMuteTime s"
  "mute_times (snd (cmd_pausemonitor s m)) = []"
  "filter is_mute (snd (cmd_pausemonitor s m)) = []"
  by (simp_all add: cmd_pausemonitor_def)

lemma quiet_cmd_resumemonitor [simp]:
  "lastMuteTime (fst (cmd_resumemonitor s m)) = lastMuteTime s"
  "mute_times (snd (cmd_resumemonitor s m)) = []"
  "filter is_mute (snd (cmd_resumemonitor s m)) = []"
  by (simp_all add: cmd_resumemonitor_def)

lemma quiet_cmd_status [simp]:
  "lastMuteTime (fst (cmd_status s m)) = lastMuteTime s"
  "mute_times (snd (cmd_status s m)) = []"
  "filter is_mute (snd (cmd_status s m)) = []"
  by (simp_all add: cmd_status_def)

lemma quiet_messageCreate [simp]:
  "lastMuteTime (fst (messageCreate auth s m)) = lastMuteTime s"
  "mute_times (snd (messageCreate auth s m)) = []"
  "filter is_mute (snd (messageCreate auth s m)) = []"
  by (simp_all add: messageCreate_def)

lemma quiet_ready_loop [simp]:
  "lastMuteTime (fst (ready_loop s gs)) = lastMuteTime s"
  "mute_times (snd (ready_loop s gs)) = []"
  "filter is_mute (snd (ready_loop s gs)) = []"
  by (induction gs) (simp_all split: option.splits)

lemma quiet_ready [simp]:
  "lastMuteTime (fst (ready s gs)) = lastMuteTime s"
  "mute_times (snd (ready s gs)) = []"
  "filter is_mute (snd (ready s gs)) = []"
  by (simp_all add: ready_def)

lemma quiet_sigint [simp]:
  "lastMuteTime (fst (sigint s)) = lastMuteTime s"
  "mute_times (snd (sigint s)) = []"
  "filter is_mute (snd (sigint s)) = []"
  by (simp_all add: sigint_def)

text \<open>The frame handler either leaves the cooldown alone or records exactly one mute.\<close>

lemma pcm_data_cases:
  "(lastMuteTime (fst (pcm_data s user h chunk m now)) = lastMuteTime s
      \<and> mute_times (snd (pcm_data s user h chunk m now)) = []
      \<and> filter is_mute (snd (pcm_data s user h chunk m now)) = [])
   \<or> (lastMuteTime (fst (pcm_data s user h chunk m now)) = now
      \<and> mute_times (snd (pcm_data s user h chunk m now)) = [now]
      \<and> filter is_mute (snd (pcm_data s user h chunk m now)) = [SetMute user True ''Noise level too high!'']
      \<and> MUTE_COOLDOWN \<le> now - lastMuteTime s \<and> \<not> m)"
  by (simp add: pcm_data_def Let_def split: option.splits)

lemma handle_cases:
  "(lastMuteTime (fst (handle auth s e)) = lastMuteTime s
      \<and> mute_times (snd (handle auth s e)) = []
      \<and> filter is_mute (snd (handle auth s e)) = [])
   \<or> (\<exists>t a. lastMuteTime (fst (handle auth s e)) = t
      \<and> mute_times (snd (handle auth s e)) = [t]
      \<and> filter is_mute (snd (handle auth s e)) = [a]
      \<and> MUTE_COOLDOWN \<le> t - lastMuteTime s)"
proof (cases e)
  case (PcmData user h chunk m now)
  then show ?thesis using pcm_data_cases[of s user h chunk m now] by auto
qed simp_all

lemma run_spaced: "spaced (lastMuteTime s) (mute_times (snd (run auth s es)))"
proof (induction es arbitrary: s)
  case Nil
  show ?case by simp
next
  case (Cons e es)
  from handle_cases[of auth s e] Cons.IH[of "fst (handle auth s e)"]
  show ?case by auto
qed

lemma run_mutes_stamped:
  "length (filter is_mute (snd (run auth s es))) = length (mute_times (snd (run auth s es)))"
proof (induction es arbitrary: s)
  case Nil
  show ?case by simp
next
  case (Cons e es)
  from handle_cases[of auth s e] Cons.IH[of "fst (handle auth s e)"]
  show ?case by auto
qed

lemma run_in_cooldown:
  "list_all (in_cooldown (lastMuteTime s)) fs \<Longrightarrow>
     filter is_mute (snd (run auth s fs)) = [] \<and> lastMuteTime (fst (run auth s fs)) = lastMuteTime s"
proof (induction fs arbitrary: s)
  case Nil
  show ?case by simp
next
  case (Cons e fs)
  from Cons.prems obtain user h chunk m now where e: "e = PcmData user h chunk m now"
    and c: "now - lastMuteTime s < MUTE_COOLDOWN"
    by (cases e) auto
  from pcm_data_cases[of s user h chunk m now] c
  have q: "lastMuteTime (fst (handle auth s e)) = lastMuteTime s"
       "filter is_mute (snd (handle auth s e)) = []"
    by (auto simp: e)
  with Cons.prems Cons.IH[of "fst (handle auth s e)"] show ?case by simp
qed

lemma pcm_data_order:
  "is_mute a \<Longrightarrow> a \<in> set (snd (pcm_data s user h chunk m now)) \<Longrightarrow>
   (\<exists>pre. snd (pcm_data s user h chunk m now) = pre @ [Assign_lastMuteTime now, a])
   \<and> lastMuteTime (fst (pcm_data s user h chunk m now)) = now"
  by (auto simp: pcm_data_def Let_def split: option.splits if_splits)


subsection \<open>The registry keeps one entry per key\<close>

lemma distinct_map_set: "distinct (map fst m) \<Longrightarrow> distinct (map fst (map_set k v m))"
  by (simp add: map_set_def distinct_update)

lemma distinct_map_delete: "distinct (map fst m) \<Longrightarrow> distinct (map fst (map_delete k m))"
  by (simp add: map_delete_def distinct_delete)

lemma keys_stopAllMonitoring [simp]: "activeStreams (fst (stopAllMonitoring s)) = []"
  by (simp add: stopAllMonitoring_def)

lemma keys_processAudio:
  "distinct (map fst (activeStreams s)) \<Longrightarrow> distinct (map fst (activeStreams (fst (processAudio s user h))))"
  by (simp add: processAudio_def distinct_map_set)

lemma keys_pcm_data [simp]: "activeStreams (fst (pcm_data s user h chunk m now)) = activeStreams s"
  by (simp add: pcm_data_def Let_def split: option.splits)

lemma keys_pcm_error:
  "distinct (map fst (activeStreams s)) \<Longrightarrow> distinct (map fst (activeStreams (fst (pcm_error s user))))"
  by (simp add: pcm_error_def distinct_map_delete)

lemma keys_audio_end:
  "distinct (map fst (activeStreams s)) \<Longrightarrow> distinct (map fst (activeStreams (fst (audio_end s user))))"
  by (simp add: audio_end_def distinct_map_delete)

lemma keys_setMute_catch [simp]: "activeStreams (fst (setMute_catch s)) = activeStreams s"
  by (simp add: setMute_catch_def)

lemma keys_joinAndMonitor [simp]:
  "activeStreams (fst (fst (joinAndMonitor s channel guild jt))) = activeStreams s"
  by (simp add: joinAndMonitor_def Let_def split: option.splits)

lemma keys_connection_stateChange:
  "distinct (map fst (activeStreams s)) \<Longrightarrow>
     distinct (map fst (activeStreams (fst (connection_stateChange s st))))"
  by (simp add: connection_stateChange_def)

lemma keys_speaking_start:
  "distinct (map fst (activeStreams s)) \<Longrightarrow>
     distinct (map fst (activeStreams (fst (speaking_start auth s userId cached h))))"
  by (simp add: speaking_start_def keys_processAudio)

lemma keys_cleanup_stream:
  "distinct (map fst (activeStreams s)) \<Longrightarrow>
     distinct (map fst (activeStreams (fst (cleanup_stream auth s))))"
  by (simp add: cleanup_stream_def distinct_map_delete)

lemma keys_voiceStateUpdate:
  "distinct (map fst (activeStreams s)) \<Longrightarrow>
     distinct (map fst (activeStreams (fst (voiceStateUpdate auth s u))))"
  by (simp add: voiceStateUpdate_def keys_cleanup_stream split: option.splits)

lemma keys_messageCreate:
  "distinct (map fst (activeStreams s)) \<Longrightarrow>
     distinct (map fst (activeStreams (fst (messageCreate auth s m))))"
  by (simp add: messageCreate_def cmd_join_def cmd_leave_def cmd_unmute_def
      cmd_pausemonitor_def cmd_resumemonitor_def cmd_status_def split: option.splits)

lemma keys_ready_loop [simp]: "activeStreams (fst (ready_loop s gs)) = activeStreams s"
  by (induction gs) (simp_all split: option.splits)

lemma keys_handle:
  "distinct (map fst (activeStreams s)) \<Longrightarrow> distinct (map fst (activeStreams (fst (handle auth s e))))"
  by (cases e)
    (simp_all add: keys_processAudio keys_pcm_error keys_audio_end keys_connection_stateChange
      keys_speaking_start keys_voiceStateUpdate keys_messageCreate ready_def sigint_def)

lemma keys_run:
  "distinct (map fst (activeStreams s)) \<Longrightarrow> distinct (map fst (activeStreams (fst (run auth s es))))"
  by (induction es arbitrary: s) (simp_all add: keys_handle)

lemma count_after_set:
  "distinct (map fst m) \<Longrightarrow> map_of m k = None \<Longrightarrow> length (filter (\<lambda>e. fst e = k) (map_set k v m)) = 1"
  by (induction m) (auto simp: map_set_def)

lemma count_present:
  "distinct (map fst m) \<Longrightarrow> map_of m k \<noteq> None \<Longrightarrow> length (filter (\<lambda>e. fst e = k) m) = 1"
proof (induction m)
  case Nil
  then show ?case by simp
next
  case (Cons x m)
  show ?case
  proof (cases "fst x = k")
    case True
    with Cons.prems have "k \<notin> fst ` set m" by auto
    then have "filter (\<lambda>e. fst e = k) m = []" by (auto simp: filter_empty_conv)
    with True show ?thesis by simp
  next
    case False
    with Cons show ?thesis by (cases x) auto
  qed
qed

lemma has_after_set: "map_has (map_set k v m) k"
  by (simp add: map_has_def map_set_def update_conv)

subsection \<open>The sample inputs evaluated\<close>

lemma log10_2: "3 < 10 * log 10 2"
proof -
  have a: "log 10 ((10::real) ^ 3) = 3" by (subst log_nat_power) simp_all
  have b: "log 10 ((2::real) ^ 10) = 10 * log 10 2" by (subst log_nat_power) simp_all
  have c: "log 10 ((10::real) ^ 3) < log 10 (2 ^ 10)" by (subst log_less_cancel_iff) simp_all
  from a b c show ?thesis by linarith
qed

lemma volume_255: "calculateVolume [255, 255] = Num (20 * log 10 256)"
  by (simp add: calculateVolume_def js_div_def)

lemma loud_255: "js_gt (calculateVolume [255, 255]) DECIBEL_THRESHOLD"
proof -
  have "log 10 ((2::real) ^ 8) = 8 * log 10 2" by (subst log_nat_power) simp_all
  then have "log 10 256 = 8 * log 10 2" by simp
  then show ?thesis using log10_2 by (simp add: volume_255 DECIBEL_THRESHOLD_def)
qed

lemma listening_eq:
  "listening = \<lparr>activeStreams = [(subject, 7)], lastMuteTime = 0, isMonitoring = True,
                 connections = [''G1'' \<mapsto> ''C1''], volumeSampleCount = (\<lambda>_. 0)(7 := 0)\<rparr>"
  by (simp add: listening_def startup_def speaking_def initial_state_def ready_def
      joinAndMonitor_def getVoiceConnection_def speaking_start_def processAudio_def
      map_has_def map_set_def and_then_def)

lemma frame_20000:
  "pcm_data listening subject 7 (Some [255, 255]) False 20000 =
     (listening\<lparr>volumeSampleCount := (\<lambda>_. 0)(7 := 1), lastMuteTime := 20000\<rparr>,
      [ConsoleLog ''[ALERT] '', Assign_lastMuteTime 20000,
       SetMute subject True ''Noise level too high!''])"
  by (simp add: pcm_data_def Let_def loud_255 listening_eq MUTE_COOLDOWN_def)

lemma muted_eq:
  "muted_at_20000 = listening\<lparr>volumeSampleCount := (\<lambda>_. 0)(7 := 1), lastMuteTime := 20000\<rparr>"
  by (simp add: muted_at_20000_def loud_frame_def frame_20000 and_then_def)

lemma joined_eq:
  "joined = \<lparr>activeStreams = [], lastMuteTime = 0, isMonitoring = True,
                 connections = [''G1'' \<mapsto> ''C1''], volumeSampleCount = (\<lambda>_. 0)\<rparr>"
  by (simp add: joined_def startup_def initial_state_def ready_def
      joinAndMonitor_def getVoiceConnection_def and_then_def)

lemma two_starts:
  "activeStreams (fst (processAudio (fst (processAudio joined subject 7)) subject 8)) = [(subject, 7)]"
  by (simp add: joined_eq processAudio_def map_has_def map_set_def)

lemma sum_abs_eq: "sum_abs data sm = sm + sum_list (map abs data)"
  by (induction data arbitrary: sm) simp_all

lemma sum_abs_nonneg: "0 \<le> sum_list (map abs (data :: int list))"
  by (induction data) simp_all

lemma mean_abs_nonneg: "0 \<le> mean_abs data"
  by (simp add: mean_abs_def sum_abs_nonneg)

lemma sum_abs_zero: "list_all (\<lambda>x. x = 0) data \<Longrightarrow> sum_list (map abs (data :: int list)) = 0"
  by (induction data) simp_all

lemma lower_char_not_upper:
  "\<not> (65 \<le> (of_char (lower_char c) :: nat) \<and> (of_char (lower_char c) :: nat) \<le> 90)"
  by (auto simp: lower_char_def Let_def)

lemma toLowerCase_no_E: "CHR ''E'' \<notin> set (toLowerCase str)"
proof
  assume "CHR ''E'' \<in> set (toLowerCase str)"
  then obtain c where "lower_char c = CHR ''E''" by (auto simp: toLowerCase_def)
  with lower_char_not_upper[of c] show False by simp
qed

lemma never_EP_join: "toLowerCase str \<noteq> ''!EP_join''"
proof
  assume "toLowerCase str = ''!EP_join''"
  then have "CHR ''E'' \<in> set (toLowerCase str)" by simp
  with toLowerCase_no_E show False by blast
qed

lemma never_EP_leave: "toLowerCase str \<noteq> ''!EP_leave''"
proof
  assume "toLowerCase str = ''!EP_leave''"
  then have "CHR ''E'' \<in> set (toLowerCase str)" by simp
  with toLowerCase_no_E show False by blast
qed

lemma lower_samples:
  "toLowerCase ''!EP_join'' = ''!ep_join''"
  "toLowerCase ''!ep_join'' = ''!ep_join''"
  "toLowerCase ''!EP_leave'' = ''!ep_leave''"
  "toLowerCase ''!ep_leave'' = ''!ep_leave''"
  "toLowerCase ''!PauseMonitor'' = ''!pausemonitor''"
  "toLowerCase ''!pausemonitor'' = ''!pausemonitor''"
  "toLowerCase ''!resumemonitor'' = ''!resumemonitor''"
  by (simp_all add: toLowerCase_def lower_char_def char_of_def bit_0)

lemma command_ignored:
  "toLowerCase text \<notin> {''!unmute'', ''!pausemonitor'', ''!resumemonitor'', ''!status''} \<Longrightarrow>
     handle auth s (command text) = (s, [])"
  by (simp add: command_def messageCreate_def cmd_join_def cmd_leave_def cmd_unmute_def
      cmd_pausemonitor_def cmd_resumemonitor_def cmd_status_def never_EP_join never_EP_leave
      and_then_def)

lemma command_pause:
  "toLowerCase text = ''!pausemonitor'' \<Longrightarrow>
     handle auth s (command text) =
       (s\<lparr>isMonitoring := False\<rparr>,
        [ConsoleLog ''[COMMAND] Received !pausemonitor command'', Reply ''Audio monitoring paused!''])"
  by (simp add: command_def messageCreate_def cmd_join_def cmd_leave_def cmd_unmute_def
      cmd_pausemonitor_def cmd_resumemonitor_def cmd_status_def
      and_then_def)

lemma command_resume:
  "toLowerCase text = ''!resumemonitor'' \<Longrightarrow>
     handle auth s (command text) =
       (s\<lparr>isMonitoring := True\<rparr>,
        [ConsoleLog ''[COMMAND] Received !resumemonitor command'', Reply ''Audio monitoring resumed!''])"
  by (simp add: command_def messageCreate_def cmd_join_def cmd_leave_def cmd_unmute_def
      cmd_pausemonitor_def cmd_resumemonitor_def cmd_status_def
      and_then_def)

lemma paused_eq: "paused = listening\<lparr>isMonitoring := False\<rparr>"
  by (simp add: paused_def command_pause lower_samples)

lemma frame_while_paused:
  "pcm_data paused subject 7 (Some [255, 255]) False 20000 = (paused, [Destroy 7])"
  by (simp add: pcm_data_def paused_eq)

lemma releases_simps [simp]:
  "releases h [] = 0"
  "releases h (Destroy h' # as) = (if h' = h then Suc (releases h as) else releases h as)"
  "releases h (ConsoleLog t # as) = releases h as"
  "releases h (ConsoleError t # as) = releases h as"
  "releases h (Reply t # as) = releases h as"
  "releases h (Subscribe u h' # as) = releases h as"
  "releases h (JoinVoiceChannel c g # as) = releases h as"
  "releases h (ConnectionDestroy g # as) = releases h as"
  "releases h (as @ bs) = releases h as + releases h bs"
  by (auto simp: releases_def)

lemma listening_calls:
  "snd (run subject initial_state [startup, speaking]) =
     [ConsoleLog ''Bot is connected and ready!'', ConsoleLog ''Monitoring specific user with ID: '',
      ConsoleLog ''[STARTUP] Target user found in voice channel '',
      JoinVoiceChannel ''C1'' ''G1'', ConsoleLog ''[BOT] Automatically joined voice channel '',
      ConsoleLog ''[EVENT] Specific user started speaking'',
      ConsoleLog ''[MONITOR] Starting to process audio for specific user: '',
      Subscribe subject 7]"
  by (simp add: startup_def speaking_def initial_state_def ready_def
      joinAndMonitor_def getVoiceConnection_def speaking_start_def processAudio_def
      map_has_def map_set_def and_then_def)

lemma no_release_while_starting:
  "releases 7 (snd (run subject initial_state [startup, speaking])) = 0"
  by (simp only: listening_calls) simp

lemma joinAndMonitor_returns:
  "snd (joinAndMonitor s channel guild jt) \<noteq> None \<Longrightarrow>
     isMonitoring (fst (fst (joinAndMonitor s channel guild jt)))"
  by (simp add: joinAndMonitor_def Let_def split: if_splits option.splits)

lemma joinAndMonitor_same_channel:
  "getVoiceConnection s guild = Some channel \<Longrightarrow>
     joinAndMonitor s channel guild jt =
       ((s\<lparr>isMonitoring := True\<rparr>, [ConsoleLog ''[BOT] Already in voice channel '']), Some channel)"
  by (simp add: joinAndMonitor_def)

lemma connections_cleanup_stream [simp]:
  "connections (fst (cleanup_stream auth s)) = connections s"
  "filter is_join (snd (cleanup_stream auth s)) = []"
  by (simp_all add: cleanup_stream_def split: option.splits)

lemma presence_same_channel:
  assumes subj: "new_member u = auth \<or> old_member u = auth"
    and new: "new_channel u = Some c"
    and old: "old_channel u \<noteq> Some c"
    and conn: "getVoiceConnection s (vs_guild u) = Some c"
  shows "isMonitoring (fst (voiceStateUpdate auth s u))
     \<and> connections (fst (voiceStateUpdate auth s u)) = connections s
     \<and> filter is_join (snd (voiceStateUpdate auth s u)) = []"
proof (cases "old_channel u")
  case None
  with subj new conn show ?thesis
    by (auto simp: voiceStateUpdate_def joinAndMonitor_same_channel)
next
  case (Some c0)
  have "getVoiceConnection (fst (cleanup_stream auth s)) (vs_guild u) = Some c"
    using conn by (simp add: getVoiceConnection_def)
  with Some subj new old show ?thesis
    by (auto simp: voiceStateUpdate_def joinAndMonitor_same_channel)
qed

lemma joinAndMonitor_joins:
  "\<not> jt \<Longrightarrow> isMonitoring (fst (fst (joinAndMonitor s channel guild jt)))"
  by (simp add: joinAndMonitor_def Let_def split: option.splits)

lemma presence_enables:
  assumes subj: "new_member u = auth \<or> old_member u = auth"
    and new: "new_channel u = Some c"
    and old: "old_channel u \<noteq> Some c"
    and ok: "\<not> vs_join_throws u"
  shows "isMonitoring (fst (voiceStateUpdate auth s u))"
proof (cases "old_channel u")
  case None
  with subj new ok show ?thesis
    by (auto simp: voiceStateUpdate_def joinAndMonitor_joins)
next
  case (Some c0)
  with subj new old ok show ?thesis
    by (auto simp: voiceStateUpdate_def joinAndMonitor_joins)
qed

lemma bytes_minus_9: "pcm_bytes [- 9] = [247, 255]"
  by simp

lemma volume_minus_9: "calculateVolume [247, 255] = Num (20 * log 10 252)"
  by (simp add: calculateVolume_def js_div_def)

lemma log10_252: "429 / 10 < 20 * log 10 252"
proof -
  have a: "log 10 ((10::real) ^ 2) = 2" by (subst log_nat_power) simp_all
  have b: "log 10 (2 * (10::real) ^ 2) = log 10 2 + log 10 (10 ^ 2)"
    by (subst log_mult) simp_all
  have c: "log 10 (2 * (10::real) ^ 2) < log 10 252" by (subst log_less_cancel_iff) simp_all
  from a b c log10_2 show ?thesis by linarith
qed

lemma claimed_minus_9: "20 * log 10 (mean_abs [- 9] + 1) = 20"
  by (simp add: mean_abs_def)

lemma frame_minus_9:
  "pcm_data listening subject 7 (Some [247, 255]) False 20000 =
     (listening\<lparr>volumeSampleCount := (\<lambda>_. 0)(7 := 1), lastMuteTime := 20000\<rparr>,
      [ConsoleLog ''[ALERT] '', Assign_lastMuteTime 20000,
       SetMute subject True ''Noise level too high!''])"
  using log10_252
  by (simp add: pcm_data_def Let_def volume_minus_9 listening_eq MUTE_COOLDOWN_def
      DECIBEL_THRESHOLD_def)

text \<open>
  On the values it reads, \<^verbatim>\<open>calculateVolume\<close> returns the formula over their mean: a
  finite number that is not negative, and 0 when all values are 0.
\<close>

lemma calculateVolume_values:
  "data \<noteq> [] \<Longrightarrow>
     calculateVolume data = Num (20 * log 10 (mean_abs data + 1))
     \<and> 0 \<le> 20 * log 10 (mean_abs data + 1)
     \<and> (list_all (\<lambda>x. x = 0) data \<longrightarrow> calculateVolume data = Num 0)"
proof -
  assume ne: "data \<noteq> []"
  have m: "0 \<le> mean_abs data" by (rule mean_abs_nonneg)
  have v: "calculateVolume data = Num (20 * log 10 (mean_abs data + 1))"
    using ne m by (simp add: calculateVolume_def js_div_def sum_abs_eq mean_abs_def)
  have p: "0 \<le> 20 * log 10 (mean_abs data + 1)"
    using m by simp
  have z: "calculateVolume data = Num 0" if "list_all (\<lambda>x. x = 0) data"
    using v sum_abs_zero[OF that] by (simp add: mean_abs_def)
  from v p z show ?thesis by blast
qed

section \<open>The claims\<close>

text \<open>
  C1. At most one mute action is dispatched per cooldown window, and the frame handler
  assigns the current time to \<^verbatim>\<open>lastMuteTime\<close> before it dispatches the mute action.
  For every run of events from every state: the times of the mute actions are spaced at
  least \<^verbatim>\<open>MUTE_COOLDOWN\<close> (5000 ms) apart, the first at least that long after the last
  mute before the run, and every mute action has its own assignment. In particular decoded
  frames that all arrive less than 5000 ms after the prior mute dispatch no mute action,
  whatever their loudness (so also when it exceeds the threshold each time). In the
  handler's calls the assignment stands immediately before the mute action, and the state
  the handler leaves has \<^verbatim>\<open>lastMuteTime\<close> equal to the current time.
\<close>

theorem cooldown_one_mute_per_window:
  "spaced (lastMuteTime s) (mute_times (snd (run auth s es)))
   \<and> length (filter is_mute (snd (run auth s es))) = length (mute_times (snd (run auth s es)))
   \<and> (list_all (in_cooldown (lastMuteTime s)) fs \<longrightarrow>
        filter is_mute (snd (run auth s fs)) = []
        \<and> lastMuteTime (fst (run auth s fs)) = lastMuteTime s)
   \<and> (is_mute a \<and> a \<in> set (snd (pcm_data s user h chunk m now)) \<longrightarrow>
        (\<exists>pre. snd (pcm_data s user h chunk m now) = pre @ [Assign_lastMuteTime now, a])
        \<and> lastMuteTime (fst (pcm_data s user h chunk m now)) = now)"
  using run_spaced[of s auth es] run_mutes_stamped[of auth s es]
    run_in_cooldown[of s fs auth] pcm_data_order[of a s user h chunk m now]
  by blast

theorem cooldown_one_mute_per_window_witness:
  "list_all (in_cooldown (lastMuteTime muted_at_20000)) [loud_frame 21000, loud_frame 24999]
   \<and> filter is_mute (snd (run subject muted_at_20000 [loud_frame 21000, loud_frame 24999])) = []
   \<and> is_mute (SetMute subject True ''Noise level too high!'')
   \<and> SetMute subject True ''Noise level too high!''
        \<in> set (snd (pcm_data listening subject 7 (Some [255, 255]) False 20000))
   \<and> snd (pcm_data listening subject 7 (Some [255, 255]) False 20000) =
        [ConsoleLog ''[ALERT] ''] @ [Assign_lastMuteTime 20000, SetMute subject True ''Noise level too high!'']
   \<and> lastMuteTime (fst (pcm_data listening subject 7 (Some [255, 255]) False 20000)) = 20000"
proof -
  have c: "list_all (in_cooldown (lastMuteTime muted_at_20000)) [loud_frame 21000, loud_frame 24999]"
    by (simp add: muted_eq loud_frame_def MUTE_COOLDOWN_def)
  have m: "is_mute (SetMute subject True ''Noise level too high!'')
     \<and> SetMute subject True ''Noise level too high!''
        \<in> set (snd (pcm_data listening subject 7 (Some [255, 255]) False 20000))"
    by (simp add: frame_20000)
  from c cooldown_one_mute_per_window[where s = muted_at_20000 and auth = subject
      and fs = "[loud_frame 21000, loud_frame 24999]"]
  have "filter is_mute (snd (run subject muted_at_20000 [loud_frame 21000, loud_frame 24999])) = []"
    by blast
  moreover from m cooldown_one_mute_per_window[where s = listening and user = subject
      and a = "SetMute subject True ''Noise level too high!''" and h = 7
      and chunk = "Some [255, 255]" and m = False and now = 20000]
  have "lastMuteTime (fst (pcm_data listening subject 7 (Some [255, 255]) False 20000)) = 20000"
    by blast
  ultimately show ?thesis using c m by (simp add: frame_20000)
qed

text \<open>
  C2. The registry holds at most one session per subject in every state the program can
  reach from its initial state, whatever events arrive. Calling \<^verbatim>\<open>processAudio\<close> twice
  in a row for the same subject while monitoring is enabled leaves exactly one entry for
  the subject; the second call changes nothing and only writes its two console lines.
  While monitoring is disabled the call changes nothing and writes one console line.
\<close>

theorem start_idempotent:
  "distinct (map fst (activeStreams (fst (run auth initial_state es))))
   \<and> (isMonitoring s \<and> distinct (map fst (activeStreams s)) \<longrightarrow>
        length (filter (\<lambda>e. fst e = user)
          (activeStreams (fst (processAudio (fst (processAudio s user h1)) user h2)))) = 1
        \<and> fst (processAudio (fst (processAudio s user h1)) user h2) = fst (processAudio s user h1)
        \<and> snd (processAudio (fst (processAudio s user h1)) user h2) =
            [ConsoleLog ''[MONITOR] Starting to process audio for specific user: '',
             ConsoleLog ''[MONITOR] Already monitoring user ''])
   \<and> (\<not> isMonitoring s \<longrightarrow>
        processAudio s user h1 =
          (s, [ConsoleLog ''[MONITOR] Monitoring is disabled, not processing audio'']))"
proof -
  have a: "distinct (map fst (activeStreams (fst (run auth initial_state es))))"
    by (rule keys_run) (simp add: initial_state_def)
  have b: "length (filter (\<lambda>e. fst e = user)
          (activeStreams (fst (processAudio (fst (processAudio s user h1)) user h2)))) = 1
        \<and> fst (processAudio (fst (processAudio s user h1)) user h2) = fst (processAudio s user h1)
        \<and> snd (processAudio (fst (processAudio s user h1)) user h2) =
            [ConsoleLog ''[MONITOR] Starting to process audio for specific user: '',
             ConsoleLog ''[MONITOR] Already monitoring user '']"
    if m: "isMonitoring s" and d: "distinct (map fst (activeStreams s))"
  proof (cases "map_has (activeStreams s) user")
    case True
    with m d show ?thesis
      by (simp add: processAudio_def count_present map_has_def)
  next
    case False
    then have n: "map_of (activeStreams s) user = None"
      by (simp add: map_has_def)
    from m False show ?thesis
      by (simp add: processAudio_def has_after_set count_after_set [OF d n])
  qed
  have c: "processAudio s user h1 =
          (s, [ConsoleLog ''[MONITOR] Monitoring is disabled, not processing audio''])"
    if "\<not> isMonitoring s"
    using that by (simp add: processAudio_def)
  from a b c show ?thesis by blast
qed

theorem start_idempotent_witness:
  "isMonitoring joined \<and> distinct (map fst (activeStreams joined))
   \<and> activeStreams (fst (processAudio (fst (processAudio joined subject 7)) subject 8)) =
       [(subject, 7)]
   \<and> fst (processAudio (fst (processAudio joined subject 7)) subject 8) =
       fst (processAudio joined subject 7)
   \<and> \<not> isMonitoring initial_state
   \<and> processAudio initial_state subject 7 =
       (initial_state, [ConsoleLog ''[MONITOR] Monitoring is disabled, not processing audio''])"
proof -
  have a: "isMonitoring joined \<and> distinct (map fst (activeStreams joined))"
    by (simp add: joined_eq)
  have b: "\<not> isMonitoring initial_state"
    by (simp add: initial_state_def)
  from a start_idempotent[where s = joined and user = subject and ?h1.0 = 7 and ?h2.0 = 8]
  have x: "fst (processAudio (fst (processAudio joined subject 7)) subject 8) =
       fst (processAudio joined subject 7)"
    by blast
  from b start_idempotent[where s = initial_state and user = subject and ?h1.0 = 7]
  have z: "processAudio initial_state subject 7 =
       (initial_state, [ConsoleLog ''[MONITOR] Monitoring is disabled, not processing audio''])"
    by blast
  from a b x z two_starts show ?thesis by blast
qed

text \<open>
  C3. The claim says that the first decoded frame after monitoring is disabled ends the
  session and removes it from the registry. The frame handler destroys the stream but
  leaves the entry: after \<^verbatim>\<open>!pausemonitor\<close> and one frame the registry still maps the
  subject to stream 7, which has been destroyed once. After \<^verbatim>\<open>!resumemonitor\<close> the next
  speaking event finds the stale entry and is skipped as a duplicate, so no new
  subscription is made.
\<close>

theorem paused_session_stays_registered:
  "activeStreams listening = [(subject, 7)]
   \<and> activeStreams (fst (run subject listening
       [command ''!pausemonitor'', loud_frame 20000])) = [(subject, 7)]
   \<and> releases 7 (snd (run subject listening
       [command ''!pausemonitor'', loud_frame 20000])) = 1
   \<and> activeStreams (fst (run subject listening
       [command ''!pausemonitor'', loud_frame 20000,
        command ''!resumemonitor'', SpeakingStart subject True 8])) = [(subject, 7)]
   \<and> snd (handle subject (fst (run subject listening
       [command ''!pausemonitor'', loud_frame 20000, command ''!resumemonitor'']))
         (SpeakingStart subject True 8)) =
       [ConsoleLog ''[EVENT] Specific user started speaking'',
        ConsoleLog ''[MONITOR] Starting to process audio for specific user: '',
        ConsoleLog ''[MONITOR] Already monitoring user '']"
  by (simp add: and_then_def command_pause command_resume lower_samples
      loud_frame_def pcm_data_def speaking_start_def processAudio_def map_has_def listening_eq)

text \<open>
  C4. The claim says that every termination path destroys the stream exactly once and
  removes the registry entry. From the state with one session on stream 7: the decoder's
  error handler removes the entry and never destroys the stream; the frame handler under
  disabled monitoring destroys the stream and keeps the entry; when the subject then leaves,
  the stale entry makes the presence handler destroy the same stream a second time. The
  leave path and \<^verbatim>\<open>stopAllMonitoring\<close> (here after a disconnect) on their own destroy once
  and empty the registry. The handler of the stream's end removes the entry and makes no
  call on the stream, which has ended by then.
\<close>

theorem termination_paths_release_counts:
  "releases 7 (snd (run subject initial_state [startup, speaking])) = 0
   \<and> activeStreams (fst (run subject listening [PcmError subject])) = []
   \<and> releases 7 (snd (run subject listening [PcmError subject])) = 0
   \<and> activeStreams (fst (run subject listening
        [command ''!pausemonitor'', loud_frame 20000])) = [(subject, 7)]
   \<and> releases 7 (snd (run subject listening
        [command ''!pausemonitor'', loud_frame 20000])) = 1
   \<and> activeStreams (fst (run subject listening
        [command ''!pausemonitor'', loud_frame 20000, presence (Some ''C1'') None])) = []
   \<and> releases 7 (snd (run subject listening
        [command ''!pausemonitor'', loud_frame 20000, presence (Some ''C1'') None])) = 2
   \<and> activeStreams (fst (run subject listening [presence (Some ''C1'') None])) = []
   \<and> releases 7 (snd (run subject listening [presence (Some ''C1'') None])) = 1
   \<and> activeStreams (fst (run subject listening [StateChange ''disconnected''])) = []
   \<and> releases 7 (snd (run subject listening [StateChange ''disconnected''])) = 1
   \<and> activeStreams (fst (run subject listening [AudioEnd subject])) = []
   \<and> releases 7 (snd (run subject listening [AudioEnd subject])) = 0"
  by (simp add: no_release_while_starting del: run.simps)
    (simp add: and_then_def command_pause lower_samples
      loud_frame_def pcm_data_def pcm_error_def audio_end_def map_has_def map_delete_def map_get_def listening_eq
      presence_def voiceStateUpdate_def cleanup_stream_def getVoiceConnection_def
      connection_stateChange_def stopAllMonitoring_def)

text \<open>
  C5. When the subject's server-mute flag is true, the frame handler dispatches no mute
  action and leaves \<^verbatim>\<open>lastMuteTime\<close> alone, for every state, chunk and clock reading.
\<close>

theorem muted_subject_never_muted_again:
  "serverMute \<Longrightarrow> filter is_mute (snd (pcm_data s user h chunk serverMute now)) = []
     \<and> lastMuteTime (fst (pcm_data s user h chunk serverMute now)) = lastMuteTime s"
  by (simp add: pcm_data_def Let_def split: option.splits)

theorem muted_subject_never_muted_again_witness:
  "filter is_mute (snd (pcm_data listening subject 7 (Some [255, 255]) True 20000)) = []
   \<and> filter is_mute (snd (pcm_data listening subject 7 (Some [255, 255]) False 20000)) =
       [SetMute subject True ''Noise level too high!'']"
  using muted_subject_never_muted_again[of True listening subject 7 "Some [255, 255]" 20000]
  by (simp add: frame_20000)

text \<open>
  C6. The claim says that for a non-empty frame of samples the estimator returns
  \<open>20 * log 10 (mean_abs xs + 1)\<close>, the formula over the mean of the absolute sample
  values. \<^verbatim>\<open>calculateVolume\<close> takes \<^verbatim>\<open>Math.abs\<close> of each byte of the chunk instead. For
  the frame holding the one sample -9 the bytes are 247 and 255, the result is
  \<open>20 * log 10 252\<close> (about 48 dB), above the threshold, and the frame handler mutes; the
  claim's value for that frame is 20, below the threshold. The frame of zeros does give 0.
\<close>

theorem calculateVolume_reads_bytes:
  "pcm_bytes [- 9] = [247, 255]
   \<and> calculateVolume (pcm_bytes [- 9]) = Num (20 * log 10 252)
   \<and> 20 * log 10 (mean_abs [- 9] + 1) = 20
   \<and> js_gt (calculateVolume (pcm_bytes [- 9])) DECIBEL_THRESHOLD
   \<and> \<not> js_gt (Num (20 * log 10 (mean_abs [- 9] + 1))) DECIBEL_THRESHOLD
   \<and> filter is_mute (snd (pcm_data listening subject 7 (Some (pcm_bytes [- 9])) False 20000)) =
       [SetMute subject True ''Noise level too high!'']
   \<and> calculateVolume (pcm_bytes [0, 0, 0]) = Num 0"
proof -
  have z: "calculateVolume (pcm_bytes [0, 0, 0]) = Num 0"
    by (simp add: calculateVolume_def js_div_def)
  have g: "js_gt (calculateVolume [247, 255]) DECIBEL_THRESHOLD"
    using log10_252 by (simp add: volume_minus_9 DECIBEL_THRESHOLD_def)
  have n: "\<not> js_gt (Num (20 * log 10 (mean_abs [- 9] + 1))) DECIBEL_THRESHOLD"
    by (simp add: claimed_minus_9 DECIBEL_THRESHOLD_def)
  from z g n show ?thesis
    by (simp add: bytes_minus_9 volume_minus_9 claimed_minus_9 frame_minus_9)
qed

text \<open>
  C7, as stated: on an empty frame the estimator returns a sentinel instead of computing,
  and never divides by zero. \<^verbatim>\<open>calculateVolume\<close> has no such guard: on the empty frame
  it divides the sum 0 by the length 0 and carries the resulting \<open>NaN\<close> through the
  formula.
\<close>

theorem calculateVolume_empty_counterexample:
  "calculateVolume [] =
     js_times 20 (js_log10 (js_add (js_div (real_of_int (sum_abs [] 0)) (real (length ([] :: int list)))) 1))
   \<and> real (length ([] :: int list)) = 0
   \<and> js_div (real_of_int (sum_abs [] 0)) (real (length ([] :: int list))) = NaN
   \<and> calculateVolume [] = NaN"
  by (simp add: calculateVolume_def js_div_def)

text \<open>
  C7, amended: the guard is in the frame handler. While monitoring is enabled, a missing or
  empty chunk makes the handler return before it calls \<^verbatim>\<open>calculateVolume\<close>: the state is
  unchanged and nothing is dispatched. \<^verbatim>\<open>calculateVolume\<close> on an empty frame returns
  \<open>NaN\<close> as a value, which is not above the threshold.
\<close>

theorem empty_frame_skipped:
  "isMonitoring s \<Longrightarrow>
     pcm_data s user h None serverMute now = (s, [])
     \<and> pcm_data s user h (Some []) serverMute now = (s, [])
     \<and> calculateVolume [] = NaN
     \<and> \<not> js_gt (calculateVolume []) DECIBEL_THRESHOLD"
  by (simp add: pcm_data_def calculateVolume_def js_div_def)

theorem empty_frame_skipped_witness:
  "isMonitoring listening
   \<and> pcm_data listening subject 7 None False 20000 = (listening, [])
   \<and> pcm_data listening subject 7 (Some []) False 20000 = (listening, [])
   \<and> calculateVolume [] = NaN"
  using empty_frame_skipped[of listening subject 7 False 20000]
  by (simp add: listening_eq)

text \<open>
  C8. The claim says that every letter-case variant of the join and leave commands is
  obeyed. The handler compares the lower-cased text with \<^verbatim>\<open>'!EP_join'\<close> and
  \<^verbatim>\<open>'!EP_leave'\<close>, which contain capitals, so the comparison fails for every message:
  neither branch ever runs, and a message \<^verbatim>\<open>!EP_join\<close> or \<^verbatim>\<open>!ep_join\<close> changes
  nothing and gets no reply. The commands written in lower case in the source do match in
  any case, as \<^verbatim>\<open>!PauseMonitor\<close> shows.
\<close>

theorem join_and_leave_commands_never_match:
  "cmd_join s m = (s, []) \<and> cmd_leave s m = (s, [])
   \<and> handle subject joined (command ''!EP_join'') = (joined, [])
   \<and> handle subject joined (command ''!ep_join'') = (joined, [])
   \<and> handle subject listening (command ''!EP_leave'') = (listening, [])
   \<and> handle subject listening (command ''!ep_leave'') = (listening, [])
   \<and> isMonitoring listening
   \<and> \<not> isMonitoring (fst (handle subject listening (command ''!PauseMonitor'')))"
  by (simp add: cmd_join_def cmd_leave_def never_EP_join never_EP_leave command_ignored
      command_pause lower_samples listening_eq)

text \<open>
  C9. The rejection callback of a mute dispatch writes the error to the console and
  changes nothing. So after a frame that dispatched a mute at time \<open>now\<close> and the failure
  of that dispatch, \<^verbatim>\<open>lastMuteTime\<close> is still \<open>now\<close>, and a frame arriving less than
  \<^verbatim>\<open>MUTE_COOLDOWN\<close> later dispatches no mute action.
\<close>

theorem failed_mute_keeps_cooldown:
  "handle auth s SetMuteRejected = (s, [ConsoleError ''[ERROR] Failed to mute user:''])
   \<and> (filter is_mute (snd (pcm_data s user h chunk serverMute now)) \<noteq> [] \<longrightarrow>
        lastMuteTime (fst (run auth s [PcmData user h chunk serverMute now, SetMuteRejected])) = now
        \<and> (now' - now < MUTE_COOLDOWN \<longrightarrow>
             filter is_mute (snd (handle auth
               (fst (run auth s [PcmData user h chunk serverMute now, SetMuteRejected]))
               (PcmData user' h' chunk' serverMute' now'))) = []))"
proof -
  have a: "handle auth s SetMuteRejected = (s, [ConsoleError ''[ERROR] Failed to mute user:''])"
    by (simp add: setMute_catch_def)
  have b: "lastMuteTime (fst (run auth s [PcmData user h chunk serverMute now, SetMuteRejected])) = now"
    if "filter is_mute (snd (pcm_data s user h chunk serverMute now)) \<noteq> []"
    using that pcm_data_cases[of s user h chunk serverMute now] by auto
  have c: "filter is_mute (snd (handle auth
               (fst (run auth s [PcmData user h chunk serverMute now, SetMuteRejected]))
               (PcmData user' h' chunk' serverMute' now'))) = []"
    if m: "filter is_mute (snd (pcm_data s user h chunk serverMute now)) \<noteq> []"
      and w: "now' - now < MUTE_COOLDOWN"
    using b[OF m] w
      pcm_data_cases[of "fst (run auth s [PcmData user h chunk serverMute now, SetMuteRejected])"
        user' h' chunk' serverMute' now']
    by auto
  from a b c show ?thesis by blast
qed

theorem failed_mute_keeps_cooldown_witness:
  "filter is_mute (snd (pcm_data listening subject 7 (Some [255, 255]) False 20000)) \<noteq> []
   \<and> lastMuteTime (fst (run subject listening [loud_frame 20000, SetMuteRejected])) = 20000
   \<and> 24999 - 20000 < MUTE_COOLDOWN
   \<and> filter is_mute (snd (handle subject
        (fst (run subject listening [loud_frame 20000, SetMuteRejected])) (loud_frame 24999))) = []"
proof -
  have m: "filter is_mute (snd (pcm_data listening subject 7 (Some [255, 255]) False 20000)) \<noteq> []"
    by (simp add: frame_20000)
  have w: "24999 - 20000 < MUTE_COOLDOWN"
    by (simp add: MUTE_COOLDOWN_def)
  from m w failed_mute_keeps_cooldown[of subject listening subject 7 "Some [255, 255]" False
      20000 24999 subject 7 "Some [255, 255]" False]
  show ?thesis unfolding loud_frame_def by blast
qed

text \<open>
  C10. Every call of \<^verbatim>\<open>joinAndMonitor\<close> that returns a connection leaves
  \<^verbatim>\<open>isMonitoring\<close> true. When the guild's connection is already on the target channel,
  the call only sets the flag and returns that connection. So a join or move event of the
  subject turns monitoring on whenever joining does not throw, also after
  \<^verbatim>\<open>!pausemonitor\<close>; and when the bot is already connected to the channel the subject
  enters, it does so without a call of \<^verbatim>\<open>joinVoiceChannel\<close> and leaves the connection table
  as it was.
\<close>

theorem joinAndMonitor_enables_monitoring:
  "(snd (joinAndMonitor s channel guild jt) \<noteq> None \<longrightarrow>
      isMonitoring (fst (fst (joinAndMonitor s channel guild jt))))
   \<and> (getVoiceConnection s guild = Some channel \<longrightarrow>
        joinAndMonitor s channel guild jt =
          ((s\<lparr>isMonitoring := True\<rparr>, [ConsoleLog ''[BOT] Already in voice channel '']),
           Some channel))
   \<and> ((new_member u = auth \<or> old_member u = auth) \<and> new_channel u = Some c
        \<and> old_channel u \<noteq> Some c \<and> \<not> vs_join_throws u \<longrightarrow>
        isMonitoring (fst (voiceStateUpdate auth s u)))
   \<and> ((new_member u = auth \<or> old_member u = auth) \<and> new_channel u = Some c
        \<and> old_channel u \<noteq> Some c \<and> getVoiceConnection s (vs_guild u) = Some c \<longrightarrow>
        isMonitoring (fst (voiceStateUpdate auth s u))
        \<and> connections (fst (voiceStateUpdate auth s u)) = connections s
        \<and> filter is_join (snd (voiceStateUpdate auth s u)) = [])"
  using joinAndMonitor_returns[of s channel guild jt]
    joinAndMonitor_same_channel[of s guild channel jt]
    presence_same_channel[of u auth c s] presence_enables[of u auth c s]
  by blast

theorem joinAndMonitor_enables_monitoring_witness:
  "snd (joinAndMonitor paused ''C1'' ''G1'' False) \<noteq> None
   \<and> getVoiceConnection paused ''G1'' = Some ''C1''
   \<and> \<not> isMonitoring paused
   \<and> isMonitoring (fst (fst (joinAndMonitor paused ''C1'' ''G1'' False)))
   \<and> isMonitoring (fst (handle subject paused (presence None (Some ''C1''))))
   \<and> connections (fst (handle subject paused (presence None (Some ''C1'')))) = connections paused
   \<and> filter is_join (snd (handle subject paused (presence None (Some ''C1'')))) = []
   \<and> isMonitoring (fst (handle subject paused (presence (Some ''C2'') (Some ''C1''))))
   \<and> filter is_join (snd (handle subject paused (presence (Some ''C2'') (Some ''C1'')))) = []
   \<and> isMonitoring (fst (handle subject paused (presence (Some ''C1'') (Some ''C2''))))"
proof -
  have c: "getVoiceConnection paused ''G1'' = Some ''C1'' \<and> \<not> isMonitoring paused"
    by (simp add: paused_eq listening_eq getVoiceConnection_def)
  then have r: "snd (joinAndMonitor paused ''C1'' ''G1'' False) \<noteq> None"
    by (simp add: joinAndMonitor_def)
  let ?join = "\<lparr>old_member = subject, new_member = subject, old_channel = None,
                 new_channel = Some ''C1'', vs_guild = ''G1'', vs_join_throws = False\<rparr>"
  let ?move = "\<lparr>old_member = subject, new_member = subject, old_channel = Some ''C2'',
                 new_channel = Some ''C1'', vs_guild = ''G1'', vs_join_throws = False\<rparr>"
  let ?away = "\<lparr>old_member = subject, new_member = subject, old_channel = Some ''C1'',
                 new_channel = Some ''C2'', vs_guild = ''G1'', vs_join_throws = False\<rparr>"
  from c r
    joinAndMonitor_enables_monitoring[where s = paused and channel = "''C1''" and guild = "''G1''"
      and jt = False and u = ?join and auth = subject and c = "''C1''"]
    joinAndMonitor_enables_monitoring[where s = paused and channel = "''C1''" and guild = "''G1''"
      and jt = False and u = ?move and auth = subject and c = "''C1''"]
    joinAndMonitor_enables_monitoring[where s = paused and channel = "''C1''" and guild = "''G1''"
      and jt = False and u = ?away and auth = subject and c = "''C2''"]
  show ?thesis by (simp add: presence_def)
qed

end
